theory Spec2Isabelle
  imports Main
begin

section \<open>Strings and truthiness\<close>

text \<open>
  A JavaScript string is modelled as a \<^typ>\<open>string\<close>: one \<^typ>\<open>char\<close> per code
  unit, for code units below 256 (ASCII and Latin-1).  A value of TypeScript type
  \<^verbatim>\<open>string | undefined\<close> is a \<^typ>\<open>string option\<close>, \<^term>\<open>None\<close> being
  \<^verbatim>\<open>undefined\<close>.
\<close>

text \<open>
  \<^verbatim>\<open>String.prototype.toLowerCase\<close> on one code unit: the letters A..Z and the
  Latin-1 capitals U+00C0..U+00DE (the multiplication sign U+00D7 apart) move up by 32.
\<close>

definition toLowerCase_char :: "char \<Rightarrow> char" where
  "toLowerCase_char c =
     (let n = (of_char c :: nat)
      in if (65 \<le> n \<and> n \<le> 90) \<or> (192 \<le> n \<and> n \<le> 222 \<and> n \<noteq> 215)
         then char_of (n + 32) else c)"

definition toLowerCase :: "string \<Rightarrow> string" where
  "toLowerCase s = map toLowerCase_char s"

text \<open>
  The test \<^verbatim>\<open>if (x)\<close> on a \<^verbatim>\<open>string | undefined\<close>: \<^verbatim>\<open>undefined\<close> and the
  empty string are falsy, every other string is truthy.
\<close>

fun truthy :: "string option \<Rightarrow> bool" where
  "truthy None = False"
| "truthy (Some s) = (s \<noteq> [])"

section \<open>The tutorial registry (utils.ts)\<close>

text \<open>
  The setting \<^verbatim>\<open>didact.registered\<close> holds a list of JSON strings.  An entry is
  modelled by the object \<^verbatim>\<open>JSON.parse\<close> yields for it, with the three properties the
  code reads; a property that is missing is \<^term>\<open>None\<close>.  An entry that parses to
  \<^verbatim>\<open>null\<close> fails every guard of this file exactly as an object with no property
  does, and is modelled by that object.  Entries that are not JSON, or whose properties
  are not strings, are outside the model.
\<close>

record jsonObj =
  name :: "string option"
  category :: "string option"
  sourceUri :: "string option"

text \<open>
  The value \<^verbatim>\<open>getRegisteredTutorials()\<close> returns: the stored list, or
  \<^verbatim>\<open>undefined\<close> when nothing is configured.
\<close>

type_synonym registry = "jsonObj list option"

datatype error =
  DuplicateTutorial string string
    \<comment> \<open>the \<^verbatim>\<open>Error\<close> thrown by \<^verbatim>\<open>registerTutorial\<close>, with the name and the category of its message\<close>

text \<open>
  The loop of \<^verbatim>\<open>registerTutorial\<close> (lines 90-101) over the remaining entries;
  \<open>match\<close> is the variable of that name, and the loop is left on the first entry
  that sets it.
\<close>

fun registerTutorial_loop :: "string \<Rightarrow> string \<Rightarrow> bool \<Rightarrow> jsonObj list \<Rightarrow> bool" where
  "registerTutorial_loop nm cat match [] = match"
| "registerTutorial_loop nm cat match (entry # rest) =
     (case (name entry, category entry) of
        (Some jn, Some jc) \<Rightarrow>
          if jn \<noteq> [] \<and> jc \<noteq> [] then
            (let testName = (toLowerCase jn = nm);
                 testCategory = (toLowerCase jc = cat);
                 match' = (testName \<and> testCategory)
             in if match' then match' else registerTutorial_loop nm cat match' rest)
          else registerTutorial_loop nm cat match rest
      | _ \<Rightarrow> registerTutorial_loop nm cat match rest)"

text \<open>
  \<^verbatim>\<open>registerTutorial(name, sourceUri, category)\<close>, as a function of the stored
  registry: the outcome of the call and the registry stored afterwards.  The throw at
  line 105 happens before the configuration is updated.
\<close>

definition registerTutorial ::
  "string \<Rightarrow> string \<Rightarrow> string \<Rightarrow> registry \<Rightarrow> (error + unit) \<times> registry" where
  "registerTutorial nm uri cat reg =
     (let newDidact = \<lparr>name = Some nm, category = Some cat, sourceUri = Some uri\<rparr>
      in case reg of
           None \<Rightarrow> (Inr (), Some [newDidact])
         | Some existingRegistry \<Rightarrow>
             if \<not> registerTutorial_loop nm cat False existingRegistry
             then (Inr (), Some (existingRegistry @ [newDidact]))
             else (Inl (DuplicateTutorial nm cat), reg))"

text \<open>The loop of \<^verbatim>\<open>getDidactCategories\<close> (lines 121-126).\<close>

fun getDidactCategories_loop :: "string list \<Rightarrow> jsonObj list \<Rightarrow> string list" where
  "getDidactCategories_loop didactCategories [] = didactCategories"
| "getDidactCategories_loop didactCategories (entry # rest) =
     (case category entry of
        Some jc \<Rightarrow>
          if jc \<noteq> [] then getDidactCategories_loop (didactCategories @ [jc]) rest
          else getDidactCategories_loop didactCategories rest
      | None \<Rightarrow> getDidactCategories_loop didactCategories rest)"

definition getDidactCategories :: "registry \<Rightarrow> string list" where
  "getDidactCategories reg =
     (case reg of
        None \<Rightarrow> []
      | Some existingRegistry \<Rightarrow> getDidactCategories_loop [] existingRegistry)"

text \<open>The loop of \<^verbatim>\<open>getTutorialsForCategory\<close> (lines 137-145).\<close>

fun getTutorialsForCategory_loop :: "string \<Rightarrow> string list \<Rightarrow> jsonObj list \<Rightarrow> string list" where
  "getTutorialsForCategory_loop cat didactTutorials [] = didactTutorials"
| "getTutorialsForCategory_loop cat didactTutorials (entry # rest) =
     (case (category entry, name entry) of
        (Some jc, Some jn) \<Rightarrow>
          if jc \<noteq> [] \<and> jn \<noteq> [] then
            (let testCategory = (jc = cat)
             in if testCategory
                then getTutorialsForCategory_loop cat (didactTutorials @ [jn]) rest
                else getTutorialsForCategory_loop cat didactTutorials rest)
          else getTutorialsForCategory_loop cat didactTutorials rest
      | _ \<Rightarrow> getTutorialsForCategory_loop cat didactTutorials rest)"

definition getTutorialsForCategory :: "string \<Rightarrow> registry \<Rightarrow> string list" where
  "getTutorialsForCategory cat reg =
     (case reg of
        None \<Rightarrow> []
      | Some existingRegistry \<Rightarrow> getTutorialsForCategory_loop cat [] existingRegistry)"

text \<open>The loop of \<^verbatim>\<open>getUriForDidactNameAndCategory\<close> (lines 154-163).\<close>

fun getUriForDidactNameAndCategory_loop :: "string \<Rightarrow> string \<Rightarrow> jsonObj list \<Rightarrow> string option" where
  "getUriForDidactNameAndCategory_loop nm cat [] = None"
| "getUriForDidactNameAndCategory_loop nm cat (entry # rest) =
     (case (category entry, name entry, sourceUri entry) of
        (Some jc, Some jn, Some ju) \<Rightarrow>
          if jc \<noteq> [] \<and> jn \<noteq> [] \<and> ju \<noteq> [] then
            (let testName = (jn = nm);
                 testCategory = (jc = cat)
             in if testName \<and> testCategory then Some ju
                else getUriForDidactNameAndCategory_loop nm cat rest)
          else getUriForDidactNameAndCategory_loop nm cat rest
      | _ \<Rightarrow> getUriForDidactNameAndCategory_loop nm cat rest)"

definition getUriForDidactNameAndCategory :: "string \<Rightarrow> string \<Rightarrow> registry \<Rightarrow> string option" where
  "getUriForDidactNameAndCategory nm cat reg =
     (case reg of
        None \<Rightarrow> None
      | Some existingRegistry \<Rightarrow> getUriForDidactNameAndCategory_loop nm cat existingRegistry)"

section \<open>JavaScript numbers\<close>

text \<open>
  The code makes three observations of a number: \<^verbatim>\<open>Number.isNaN\<close>, the test
  \<^verbatim>\<open>> 0\<close>, and its rendering in a template string.  An integer of magnitude at
  most \<open>2^53\<close> is kept as that integer.  Any other number (a fraction, a larger
  magnitude, an infinity) is kept as the two observations: whether it is greater than
  zero, and how \<^verbatim>\<open>String\<close> renders it.
\<close>

datatype jsnumber = NaN | IntegerValue int | OtherValue bool string

definition isNaN :: "jsnumber \<Rightarrow> bool" where
  "isNaN v = (v = NaN)"

fun greaterThanZero :: "jsnumber \<Rightarrow> bool" where
  "greaterThanZero NaN = False"
| "greaterThanZero (IntegerValue i) = (0 < i)"
| "greaterThanZero (OtherValue p r) = p"

text \<open>The decimal digits of a non-negative integer.\<close>

function showDigits :: "int \<Rightarrow> string" where
  "showDigits i =
     (if i < 10 then [char_of (48 + i)]
      else showDigits (i div 10) @ [char_of (48 + i mod 10)])"
  by pat_completeness auto
termination
  by (relation "measure nat") auto

declare showDigits.simps [simp del]

text \<open>The rendering of a number inside a template string.\<close>

fun toString :: "jsnumber \<Rightarrow> string" where
  "toString NaN = ''NaN''"
| "toString (IntegerValue i) = (if i < 0 then CHR ''-'' # showDigits (- i) else showDigits i)"
| "toString (OtherValue p r) = r"

text \<open>
  \<^verbatim>\<open>Number(x)\<close> for \<^verbatim>\<open>x : string | undefined\<close>, after the StringNumericLiteral
  grammar of ECMAScript: white space is trimmed; the empty string is 0; a literal is a
  binary, octal or hexadecimal integer with its prefix, or an optionally signed decimal
  literal (\<^verbatim>\<open>Infinity\<close>, or digits with an optional fraction and an optional
  exponent, at least one digit in the mantissa); everything else, and
  \<^verbatim>\<open>undefined\<close>, is \<^verbatim>\<open>NaN\<close>.  The value of an integer literal of magnitude at
  most \<open>2^53\<close> is computed.  The value of every other literal depends on IEEE-754
  rounding, which is not modelled: the parameter \<open>ext\<close> gives, for such a literal,
  whether its number is greater than zero and how \<^verbatim>\<open>String\<close> renders it.
\<close>

definition isDecimalDigit :: "char \<Rightarrow> bool" where
  "isDecimalDigit c = (let n = (of_char c :: nat) in 48 \<le> n \<and> n \<le> 57)"

definition digitValue :: "char \<Rightarrow> nat" where
  "digitValue c =
     (let n = (of_char c :: nat)
      in if 48 \<le> n \<and> n \<le> 57 then n - 48
         else if 97 \<le> n \<and> n \<le> 102 then n - 87
         else if 65 \<le> n \<and> n \<le> 70 then n - 55
         else 36)"

definition digitsValue :: "nat \<Rightarrow> string \<Rightarrow> int" where
  "digitsValue base ds = foldl (\<lambda>acc c. acc * int base + int (digitValue c)) 0 ds"

definition isStrWhiteSpaceChar :: "char \<Rightarrow> bool" where
  "isStrWhiteSpaceChar c = ((of_char c :: nat) \<in> set [9, 10, 11, 12, 13, 32, 160])"

definition trimWhiteSpace :: "string \<Rightarrow> string" where
  "trimWhiteSpace s = rev (dropWhile isStrWhiteSpaceChar (rev (dropWhile isStrWhiteSpaceChar s)))"

definition floatNumber :: "(string \<Rightarrow> bool \<times> string) \<Rightarrow> string \<Rightarrow> jsnumber" where
  "floatNumber ext lit = (case ext lit of (p, r) \<Rightarrow> OtherValue p r)"

definition wholeNumber :: "(string \<Rightarrow> bool \<times> string) \<Rightarrow> string \<Rightarrow> bool \<Rightarrow> int \<Rightarrow> jsnumber" where
  "wholeNumber ext lit neg n =
     (if n \<le> 9007199254740992 then IntegerValue (if neg then - n else n)
      else floatNumber ext lit)"

text \<open>The literals \<^verbatim>\<open>0b...\<close>, \<^verbatim>\<open>0o...\<close> and \<^verbatim>\<open>0x...\<close>: their value, if \<open>lit\<close> is one.\<close>

definition nonDecimalIntegerLiteral :: "string \<Rightarrow> int option" where
  "nonDecimalIntegerLiteral lit =
     (case lit of
        z # p # ds \<Rightarrow>
          (let base = (if p = CHR ''b'' \<or> p = CHR ''B'' then 2
                       else if p = CHR ''o'' \<or> p = CHR ''O'' then 8
                       else if p = CHR ''x'' \<or> p = CHR ''X'' then 16
                       else (0::nat))
           in if z = CHR ''0'' \<and> base \<noteq> 0 \<and> ds \<noteq> [] \<and> list_all (\<lambda>c. digitValue c < base) ds
              then Some (digitsValue base ds) else None)
      | _ \<Rightarrow> None)"

definition isExponentPart :: "string \<Rightarrow> bool" where
  "isExponentPart r =
     (case r of
        [] \<Rightarrow> False
      | e # t \<Rightarrow>
          (e = CHR ''e'' \<or> e = CHR ''E'') \<and>
          (let ds = (case t of
                       [] \<Rightarrow> []
                     | sg # t' \<Rightarrow> if sg = CHR ''+'' \<or> sg = CHR ''-'' then t' else t)
           in ds \<noteq> [] \<and> list_all isDecimalDigit ds))"

text \<open>An unsigned decimal literal \<open>body\<close>, of the literal \<open>lit\<close> whose sign is \<open>neg\<close>.\<close>

definition strUnsignedDecimalLiteral ::
  "(string \<Rightarrow> bool \<times> string) \<Rightarrow> string \<Rightarrow> bool \<Rightarrow> string \<Rightarrow> jsnumber" where
  "strUnsignedDecimalLiteral ext lit neg body =
     (if body = ''Infinity''
      then OtherValue (\<not> neg) (if neg then ''-Infinity'' else ''Infinity'')
      else
        (let ip = takeWhile isDecimalDigit body;
             r1 = dropWhile isDecimalDigit body
         in case r1 of
              [] \<Rightarrow> if ip = [] then NaN else wholeNumber ext lit neg (digitsValue 10 ip)
            | c # t \<Rightarrow>
                (let fp = (if c = CHR ''.'' then takeWhile isDecimalDigit t else []);
                     r2 = (if c = CHR ''.'' then dropWhile isDecimalDigit t else r1)
                 in if ip = [] \<and> fp = [] then NaN
                    else if r2 = [] \<or> isExponentPart r2 then floatNumber ext lit
                    else NaN)))"

definition Number_js :: "(string \<Rightarrow> bool \<times> string) \<Rightarrow> string option \<Rightarrow> jsnumber" where
  "Number_js ext x =
     (case x of
        None \<Rightarrow> NaN
      | Some s \<Rightarrow>
          (let lit = trimWhiteSpace s
           in case lit of
                [] \<Rightarrow> IntegerValue 0
              | c # t \<Rightarrow>
                  (case nonDecimalIntegerLiteral lit of
                     Some n \<Rightarrow> wholeNumber ext lit False n
                   | None \<Rightarrow>
                       if c = CHR ''+'' then strUnsignedDecimalLiteral ext lit False t
                       else if c = CHR ''-'' then strUnsignedDecimalLiteral ext lit True t
                       else strUnsignedDecimalLiteral ext lit False lit)))"

text \<open>The template \<^verbatim>\<open>`(~${timeValue} mins)`\<close>.\<close>

definition timeLabelOf :: "jsnumber \<Rightarrow> string" where
  "timeLabelOf timeValue = ''(~'' @ toString timeValue @ '' mins)''"

section \<open>String operations\<close>

text \<open>\<^verbatim>\<open>s.split(sep)\<close> for a separator of one character.\<close>

fun split_js :: "char \<Rightarrow> string \<Rightarrow> string list" where
  "split_js sep [] = [[]]"
| "split_js sep (c # cs) =
     (if c = sep then [] # split_js sep cs
      else (case split_js sep cs of
              [] \<Rightarrow> [[c]]
            | w # ws \<Rightarrow> (c # w) # ws))"

definition startsWith :: "string \<Rightarrow> string \<Rightarrow> bool" where
  "startsWith s p = (take (length p) s = p)"

text \<open>Reading \<^verbatim>\<open>xs[i]\<close>: \<^verbatim>\<open>undefined\<close> out of range.\<close>

definition at_index :: "'a list \<Rightarrow> nat \<Rightarrow> 'a option" where
  "at_index xs i = (if i < length xs then Some (xs ! i) else None)"

text \<open>A \<^verbatim>\<open>string | undefined\<close> inside a template string.\<close>

fun interpolate :: "string option \<Rightarrow> string" where
  "interpolate None = ''undefined''"
| "interpolate (Some s) = s"

section \<open>Parsed markup (node-html-parser)\<close>

text \<open>
  An element as the code reads it: its tag name, its attributes, its child nodes, and
  the two text properties \<^verbatim>\<open>innerText\<close> and \<^verbatim>\<open>rawText\<close>, which the parser
  computes and the model records as given.  A child node is an element or some other
  node (text, comment), of which nothing is read.
\<close>

datatype HTMLElement =
  HTMLElement (tagName: string) (attributes: "(string \<times> string) list")
    (childNodes: "Node list") (innerText: string) (rawText: string)
and Node = ElementNode HTMLElement | OtherNode

definition getAttribute :: "HTMLElement \<Rightarrow> string \<Rightarrow> string option" where
  "getAttribute element key = map_of (attributes element) key"

section \<open>Tree nodes (nodeProvider.ts)\<close>

datatype TreeItemCollapsibleState = NoneState | Collapsed | Expanded

datatype nodeClass = SimpleNodeClass | TreeNodeClass | TutorialNodeClass | HeadingNodeClass

text \<open>
  A node of the view: its class and the properties the code reads or sets.  The field
  \<open>nodeCategory\<close> is the property \<^verbatim>\<open>category\<close> of \<^verbatim>\<open>SimpleNode\<close>; the icon of a
  tutorial node is left out.
\<close>

record SimpleNode =
  nodeClass :: nodeClass
  label :: string
  nodeCategory :: "string option"
  uri :: "string option"
  collapsibleState :: TreeItemCollapsibleState
  description :: "string option"
  contextValue :: "string option"

text \<open>The constructors of \<^verbatim>\<open>TreeNode\<close>, \<^verbatim>\<open>TutorialNode\<close> and \<^verbatim>\<open>HeadingNode\<close>.\<close>

definition TreeNode ::
  "string option \<Rightarrow> string \<Rightarrow> string option \<Rightarrow> TreeItemCollapsibleState \<Rightarrow> SimpleNode" where
  "TreeNode type lbl u cs =
     \<lparr>nodeClass = TreeNodeClass, label = lbl, nodeCategory = type, uri = u,
      collapsibleState = cs, description = None, contextValue = None\<rparr>"

definition TutorialNode ::
  "string option \<Rightarrow> string \<Rightarrow> string option \<Rightarrow> TreeItemCollapsibleState \<Rightarrow> string option \<Rightarrow> SimpleNode" where
  "TutorialNode cat lbl u cs inTooltip =
     (TreeNode cat lbl u cs)
       \<lparr>nodeClass := TutorialNodeClass,
        description := (if truthy inTooltip then inTooltip else None)\<rparr>"

definition HeadingNode ::
  "string option \<Rightarrow> string \<Rightarrow> string option \<Rightarrow> string option \<Rightarrow> SimpleNode" where
  "HeadingNode cat lbl u descr =
     \<lparr>nodeClass = HeadingNodeClass, label = lbl, nodeCategory = cat, uri = u,
      collapsibleState = NoneState, description = descr, contextValue = None\<rparr>"

fun doesNodeExist :: "SimpleNode list \<Rightarrow> SimpleNode \<Rightarrow> bool" where
  "doesNodeExist [] newNode = False"
| "doesNodeExist (node # rest) newNode =
     (if label node = label newNode then True else doesNodeExist rest newNode)"

text \<open>
  \<^verbatim>\<open>addChild(newNode, true, oldNodes)\<close>: every call of this file passes
  \<^verbatim>\<open>disableRefresh = true\<close>, so the node is pushed and nothing is refreshed.
\<close>

definition addChild :: "SimpleNode \<Rightarrow> SimpleNode list \<Rightarrow> SimpleNode list" where
  "addChild newNode oldNodes = oldNodes @ [newNode]"

text \<open>The state of the provider.\<close>

record DidactNodeProvider =
  treeNodes :: "SimpleNode list"
  retrieveTutorials :: bool

definition resetList :: "DidactNodeProvider \<Rightarrow> DidactNodeProvider" where
  "resetList p = p\<lparr>treeNodes := []\<rparr>"

text \<open>The loop of \<^verbatim>\<open>processRegisteredTutorials\<close> (lines 126-131) over the top-level nodes.\<close>

fun processRegisteredTutorials_loop :: "SimpleNode list \<Rightarrow> string list \<Rightarrow> SimpleNode list" where
  "processRegisteredTutorials_loop nodes [] = nodes"
| "processRegisteredTutorials_loop nodes (cat # rest) =
     (let newNode = TreeNode (Some cat) cat None Collapsed
      in if \<not> doesNodeExist nodes newNode
         then processRegisteredTutorials_loop (addChild newNode nodes) rest
         else processRegisteredTutorials_loop nodes rest)"

definition processRegisteredTutorials :: "registry \<Rightarrow> DidactNodeProvider \<Rightarrow> DidactNodeProvider" where
  "processRegisteredTutorials reg p =
     p\<lparr>treeNodes := processRegisteredTutorials_loop (treeNodes p) (getDidactCategories reg)\<rparr>"

definition refresh :: "registry \<Rightarrow> DidactNodeProvider \<Rightarrow> DidactNodeProvider" where
  "refresh reg p =
     (let p' = resetList p
      in if retrieveTutorials p' then processRegisteredTutorials reg p' else p')"

text \<open>
  What the provider calls outside this file: the functions of
  \<^verbatim>\<open>extensionFunctions\<close> (the time elements of a document, whether a uri names an
  AsciiDoc document, the total time of a document), and the part of \<^verbatim>\<open>Number\<close>
  that is not modelled (see \<^term>\<open>Number_js\<close>).
\<close>

record host =
  getTimeElementsForDidactFileUri :: "string \<Rightarrow> HTMLElement list option"
  isAsciiDoc :: "string \<Rightarrow> bool"
  computeTimeForDidactFileUri :: "string \<Rightarrow> jsnumber"
  numberOfLiteral :: "string \<Rightarrow> bool \<times> string"

text \<open>The loop of \<^verbatim>\<open>processTutorialsForCategory\<close> (lines 140-157).\<close>

fun processTutorialsForCategory_loop ::
  "host \<Rightarrow> registry \<Rightarrow> string \<Rightarrow> SimpleNode list \<Rightarrow> string list \<Rightarrow> SimpleNode list" where
  "processTutorialsForCategory_loop h reg cat children [] = children"
| "processTutorialsForCategory_loop h reg cat children (tutorial # rest) =
     (let tutUri = getUriForDidactNameAndCategory tutorial cat reg;
          timeCount = (case tutUri of Some u \<Rightarrow> computeTimeForDidactFileUri h u | None \<Rightarrow> NaN);
          labelled = (truthy tutUri \<and> greaterThanZero timeCount);
          timeLabel = (if labelled then Some (timeLabelOf timeCount) else None);
          hasChildren = (if labelled then Collapsed else NoneState);
          newNode = (TutorialNode (Some cat) tutorial tutUri hasChildren timeLabel)
                      \<lparr>contextValue := Some ''TutorialNode''\<rparr>
      in if \<not> doesNodeExist children newNode
         then processTutorialsForCategory_loop h reg cat (addChild newNode children) rest
         else processTutorialsForCategory_loop h reg cat children rest)"

definition processTutorialsForCategory ::
  "host \<Rightarrow> registry \<Rightarrow> string option \<Rightarrow> SimpleNode list" where
  "processTutorialsForCategory h reg cat =
     (case cat of
        None \<Rightarrow> []
      | Some c \<Rightarrow>
          if c \<noteq> [] then processTutorialsForCategory_loop h reg c [] (getTutorialsForCategory c reg)
          else [])"

text \<open>The text sent to the output channel at lines 182 and 214.\<close>

definition invalidTimeWarning :: "string \<Rightarrow> string option \<Rightarrow> string" where
  "invalidTimeWarning title v =
     ''Warning: Heading node '' @ [CHR 0x22] @ title @ [CHR 0x22] @
     '' has an invalid time value set to '' @ [CHR 0x22] @ interpolate v @ [CHR 0x22]"

text \<open>
  The inner loop of \<^verbatim>\<open>getNodeFromADOCDiv\<close> (lines 174-186) over the remaining
  children; \<open>out\<close> is the output channel, a list of the texts sent to it.
\<close>

fun getNodeFromADOCDiv_children ::
  "string option \<Rightarrow> string option \<Rightarrow> string option \<Rightarrow> jsnumber \<Rightarrow> Node list \<Rightarrow> string list
     \<Rightarrow> SimpleNode option \<times> string list" where
  "getNodeFromADOCDiv_children tutUri cat splitTime timeValue [] out = (None, out)"
| "getNodeFromADOCDiv_children tutUri cat splitTime timeValue (OtherNode # rest) out =
     getNodeFromADOCDiv_children tutUri cat splitTime timeValue rest out"
| "getNodeFromADOCDiv_children tutUri cat splitTime timeValue (ElementNode child # rest) out =
     (if startsWith (tagName child) ''H'' then
        (let title = innerText child
         in if \<not> isNaN timeValue
            then (Some (HeadingNode cat title tutUri (Some (timeLabelOf timeValue))), out)
            else getNodeFromADOCDiv_children tutUri cat splitTime timeValue rest
                   (out @ [invalidTimeWarning title splitTime]))
      else getNodeFromADOCDiv_children tutUri cat splitTime timeValue rest out)"

text \<open>The outer loop of \<^verbatim>\<open>getNodeFromADOCDiv\<close> (lines 167-189) over the remaining chunks.\<close>

fun getNodeFromADOCDiv_chunks ::
  "host \<Rightarrow> HTMLElement \<Rightarrow> string option \<Rightarrow> string option \<Rightarrow> string list \<Rightarrow> string list
     \<Rightarrow> SimpleNode option \<times> string list" where
  "getNodeFromADOCDiv_chunks h divElement tutUri cat [] out = (None, out)"
| "getNodeFromADOCDiv_chunks h divElement tutUri cat (chunk # rest) out =
     (if startsWith chunk ''time='' then
        (let splitTime = at_index (split_js (CHR ''='') chunk) 1;
             timeValue = Number_js (numberOfLiteral h) splitTime
         in if length (childNodes divElement) > 0 then
              (case getNodeFromADOCDiv_children tutUri cat splitTime timeValue
                      (childNodes divElement) out of
                 (Some node, out') \<Rightarrow> (Some node, out')
               | (None, out') \<Rightarrow> getNodeFromADOCDiv_chunks h divElement tutUri cat rest out')
            else getNodeFromADOCDiv_chunks h divElement tutUri cat rest out)
      else getNodeFromADOCDiv_chunks h divElement tutUri cat rest out)"

definition getNodeFromADOCDiv ::
  "host \<Rightarrow> HTMLElement \<Rightarrow> string option \<Rightarrow> string option \<Rightarrow> string list
     \<Rightarrow> SimpleNode option \<times> string list" where
  "getNodeFromADOCDiv h divElement tutUri cat out =
     (let classAttr = getAttribute divElement ''class''
      in if truthy classAttr
         then getNodeFromADOCDiv_chunks h divElement tutUri cat
                (split_js (CHR '' '') (case classAttr of Some s \<Rightarrow> s | None \<Rightarrow> [])) out
         else (None, out))"

text \<open>The Markdown loop of \<^verbatim>\<open>processHeadingsForTutorial\<close> (lines 199-216).\<close>

fun processHeadingsForTutorial_md ::
  "host \<Rightarrow> string \<Rightarrow> string option \<Rightarrow> SimpleNode list \<Rightarrow> HTMLElement list \<Rightarrow> string list
     \<Rightarrow> SimpleNode list \<times> string list" where
  "processHeadingsForTutorial_md h tutUri cat children [] out = (children, out)"
| "processHeadingsForTutorial_md h tutUri cat children (heading # rest) out =
     (let timeAttr = getAttribute heading ''time'';
          timeValue = Number_js (numberOfLiteral h) timeAttr;
          timeLabel = (if \<not> isNaN timeValue then Some (timeLabelOf timeValue) else None);
          title = rawText heading;
          newNode = (HeadingNode cat title (Some tutUri) timeLabel)
                      \<lparr>contextValue := Some ''HeadingNode''\<rparr>;
          children' = (if \<not> doesNodeExist children newNode \<and> truthy timeLabel
                       then addChild newNode children else children);
          out' = (if isNaN timeValue then out @ [invalidTimeWarning title timeAttr] else out)
      in processHeadingsForTutorial_md h tutUri cat children' rest out')"

text \<open>The AsciiDoc loop of \<^verbatim>\<open>processHeadingsForTutorial\<close> (lines 219-225).\<close>

fun processHeadingsForTutorial_adoc ::
  "host \<Rightarrow> string \<Rightarrow> string option \<Rightarrow> SimpleNode list \<Rightarrow> HTMLElement list \<Rightarrow> string list
     \<Rightarrow> SimpleNode list \<times> string list" where
  "processHeadingsForTutorial_adoc h tutUri cat children [] out = (children, out)"
| "processHeadingsForTutorial_adoc h tutUri cat children (heading # rest) out =
     (case getNodeFromADOCDiv h heading (Some tutUri) cat out of
        (Some newNode, out') \<Rightarrow>
          if \<not> doesNodeExist children newNode
          then processHeadingsForTutorial_adoc h tutUri cat
                 (addChild (newNode\<lparr>contextValue := Some ''HeadingNode''\<rparr>) children) rest out'
          else processHeadingsForTutorial_adoc h tutUri cat children rest out'
      | (None, out') \<Rightarrow> processHeadingsForTutorial_adoc h tutUri cat children rest out')"

definition processHeadingsForTutorial ::
  "host \<Rightarrow> string option \<Rightarrow> string option \<Rightarrow> string list \<Rightarrow> SimpleNode list \<times> string list" where
  "processHeadingsForTutorial h tutUri cat out =
     (case tutUri of
        None \<Rightarrow> ([], out)
      | Some u \<Rightarrow>
          if u \<noteq> [] then
            (case getTimeElementsForDidactFileUri h u of
               None \<Rightarrow> ([], out)
             | Some headings \<Rightarrow>
                 if \<not> isAsciiDoc h u
                 then processHeadingsForTutorial_md h u cat [] headings out
                 else processHeadingsForTutorial_adoc h u cat [] headings out)
          else ([], out))"

definition findCategoryNode :: "string \<Rightarrow> DidactNodeProvider \<Rightarrow> SimpleNode option" where
  "findCategoryNode cat p =
     (let nodeToFind = TreeNode (Some cat) cat None Collapsed
      in if doesNodeExist (treeNodes p) nodeToFind then Some nodeToFind else None)"

section \<open>Vocabulary of the statements\<close>

text \<open>The entries of a registry, none when nothing is stored.\<close>

definition entries :: "registry \<Rightarrow> jsonObj list" where
  "entries reg = (case reg of None \<Rightarrow> [] | Some es \<Rightarrow> es)"

text \<open>
  Some registration has the given name and category under case-insensitive comparison:
  both sides are lowered.
\<close>

definition registered_ci :: "string \<Rightarrow> string \<Rightarrow> registry \<Rightarrow> bool" where
  "registered_ci nm cat reg =
     list_ex (\<lambda>e. case (name e, category e) of
                 (Some jn, Some jc) \<Rightarrow>
                   toLowerCase jn = toLowerCase nm \<and> toLowerCase jc = toLowerCase cat
               | _ \<Rightarrow> False) (entries reg)"

text \<open>Keeping the first occurrence of every element, in order.\<close>

fun firstOccurrences :: "'a list \<Rightarrow> 'a list" where
  "firstOccurrences [] = []"
| "firstOccurrences (x # xs) = x # firstOccurrences (removeAll x xs)"

text \<open>A Markdown heading whose \<^verbatim>\<open>time\<close> attribute converts to a number.\<close>

definition validTime :: "host \<Rightarrow> HTMLElement \<Rightarrow> bool" where
  "validTime h heading =
     (\<not> isNaN (Number_js (numberOfLiteral h) (getAttribute heading ''time'')))"

text \<open>A child node that the test at lines 175-177 accepts.\<close>

definition headingLike :: "Node \<Rightarrow> bool" where
  "headingLike n =
     (case n of ElementNode e \<Rightarrow> startsWith (tagName e) ''H'' | OtherNode \<Rightarrow> False)"

text \<open>
  A host for concrete inputs: every document has the given time elements and is
  AsciiDoc or not as given; its total time is 0, and a literal outside the integers is
  rendered as written.
\<close>

definition exampleHost :: "HTMLElement list \<Rightarrow> bool \<Rightarrow> host" where
  "exampleHost elements adoc =
     \<lparr>getTimeElementsForDidactFileUri = (\<lambda>u. Some elements),
      isAsciiDoc = (\<lambda>u. adoc),
      computeTimeForDidactFileUri = (\<lambda>u. IntegerValue 0),
      numberOfLiteral = (\<lambda>lit. (False, lit))\<rparr>"

section \<open>Lemmas on the registry\<close>

lemma toLowerCase_char_idem: "toLowerCase_char (toLowerCase_char c) = toLowerCase_char c"
  by (auto simp: toLowerCase_char_def Let_def)

lemma toLowerCase_idem: "toLowerCase (toLowerCase s) = toLowerCase s"
  by (simp add: toLowerCase_def toLowerCase_char_idem)

text \<open>What the loop of \<^verbatim>\<open>registerTutorial\<close> detects: the stored side is lowered, the given side is not.\<close>

lemma registerTutorial_loop_iff:
  "registerTutorial_loop nm cat False es \<longleftrightarrow>
     (\<exists>e \<in> set es. \<exists>jn jc. name e = Some jn \<and> category e = Some jc \<and> jn \<noteq> [] \<and> jc \<noteq> []
        \<and> toLowerCase jn = nm \<and> toLowerCase jc = cat)"
  by (induction es) (auto split: option.splits)

lemma registerTutorial_loop_ci:
  assumes "registerTutorial_loop nm cat False es"
  shows "registered_ci nm cat (Some es)"
proof -
  from assms obtain e jn jc where e: "e \<in> set es" "name e = Some jn" "category e = Some jc"
    "toLowerCase jn = nm" "toLowerCase jc = cat"
    by (auto simp: registerTutorial_loop_iff)
  then have "toLowerCase jn = toLowerCase nm" "toLowerCase jc = toLowerCase cat"
    using toLowerCase_idem by metis+
  with e show ?thesis
    unfolding registered_ci_def entries_def list_ex_iff
    by (intro bexI[of _ e]) simp_all
qed

lemma getUri_loop_append:
  "getUriForDidactNameAndCategory_loop nm cat (xs @ ys) =
     (case getUriForDidactNameAndCategory_loop nm cat xs of
        Some u \<Rightarrow> Some u
      | None \<Rightarrow> getUriForDidactNameAndCategory_loop nm cat ys)"
  by (induction xs) (auto split: option.splits)

lemma getUri_loop_None:
  "\<forall>e \<in> set es. \<not> (name e = Some nm \<and> category e = Some cat) \<Longrightarrow>
     getUriForDidactNameAndCategory_loop nm cat es = None"
  by (induction es) (auto split: option.splits)

lemma not_ci_not_exact:
  "\<not> registered_ci nm cat (Some es) \<Longrightarrow>
     \<forall>e \<in> set es. \<not> (name e = Some nm \<and> category e = Some cat)"
  by (auto simp: registered_ci_def entries_def list_ex_iff)

lemma getDidactCategories_loop_eq:
  "getDidactCategories_loop acc es = acc @ [c \<leftarrow> List.map_filter category es. c \<noteq> []]"
  by (induction es arbitrary: acc) (auto simp: List.map_filter_simps split: option.splits)


section \<open>Lemmas on sibling lists\<close>

lemma doesNodeExist_iff: "doesNodeExist nodes n \<longleftrightarrow> label n \<in> set (map label nodes)"
  by (induction nodes) auto

lemma label_TreeNode [simp]: "label (TreeNode t l u cs) = l"
  by (simp add: TreeNode_def)

lemma label_TutorialNode [simp]: "label (TutorialNode t l u cs tt) = l"
  by (simp add: TutorialNode_def)

lemma label_HeadingNode [simp]: "label (HeadingNode t l u d) = l"
  by (simp add: HeadingNode_def)

lemma set_firstOccurrences [simp]: "set (firstOccurrences xs) = set xs"
  by (induction xs rule: firstOccurrences.induct) auto

lemma distinct_firstOccurrences [simp]: "distinct (firstOccurrences xs)"
  by (induction xs rule: firstOccurrences.induct) auto

lemma firstOccurrences_filter_notin:
  assumes "x \<notin> set L"
  shows "firstOccurrences (filter (\<lambda>c. c \<notin> set L) (x # cs)) =
           x # firstOccurrences (filter (\<lambda>c. c \<notin> set (L @ [x])) cs)"
proof -
  have "removeAll x (filter (\<lambda>c. c \<notin> set L) cs) = filter (\<lambda>c. c \<notin> set (L @ [x])) cs"
    by (induction cs) auto
  with assms show ?thesis by simp
qed

lemma processRegisteredTutorials_loop_labels:
  "map label (processRegisteredTutorials_loop nodes cats) =
     map label nodes @ firstOccurrences (filter (\<lambda>c. c \<notin> set (map label nodes)) cats)"
proof (induction cats arbitrary: nodes)
  case Nil
  then show ?case by simp
next
  case (Cons c cats)
  show ?case
  proof (cases "c \<in> set (map label nodes)")
    case True
    then show ?thesis
      using Cons.IH [of nodes] by (simp add: doesNodeExist_iff Let_def)
  next
    case False
    have "map label (processRegisteredTutorials_loop nodes (c # cats)) =
          map label (processRegisteredTutorials_loop
                       (addChild (TreeNode (Some c) c None Collapsed) nodes) cats)"
      using False by (simp add: doesNodeExist_iff Let_def)
    also have "\<dots> = (map label nodes @ [c]) @
          firstOccurrences (filter (\<lambda>x. x \<notin> set (map label nodes @ [c])) cats)"
      using Cons.IH [of "addChild (TreeNode (Some c) c None Collapsed) nodes"]
      by (simp add: addChild_def)
    also have "\<dots> = map label nodes @
          firstOccurrences (filter (\<lambda>x. x \<notin> set (map label nodes)) (c # cats))"
      using firstOccurrences_filter_notin [OF False, of cats] by simp
    finally show ?thesis .
  qed
qed

lemma refresh_labels:
  "map label (treeNodes (refresh reg p)) =
     (if retrieveTutorials p then firstOccurrences (getDidactCategories reg) else [])"
  by (simp add: refresh_def resetList_def processRegisteredTutorials_def Let_def
      processRegisteredTutorials_loop_labels)

lemma processRegisteredTutorials_distinct:
  "distinct (map label (treeNodes p)) \<Longrightarrow>
   distinct (map label (treeNodes (processRegisteredTutorials reg p)))"
  by (auto simp: processRegisteredTutorials_def processRegisteredTutorials_loop_labels)

lemma processTutorialsForCategory_loop_distinct:
  "distinct (map label children) \<Longrightarrow>
   distinct (map label (processTutorialsForCategory_loop h reg cat children tuts))"
proof (induction tuts arbitrary: children)
  case Nil
  then show ?case by simp
next
  case (Cons t tuts)
  show ?case
  proof (cases "t \<in> set (map label children)")
    case True
    then show ?thesis using Cons by (simp add: doesNodeExist_iff Let_def)
  next
    case False
    then show ?thesis using Cons.prems
      by (simp add: doesNodeExist_iff Let_def addChild_def Cons.IH)
  qed
qed

lemma processTutorialsForCategory_distinct:
  "distinct (map label (processTutorialsForCategory h reg cat))"
  by (simp add: processTutorialsForCategory_def processTutorialsForCategory_loop_distinct
      split: option.splits)

section \<open>Lemmas on the headings of a Markdown document\<close>

lemma timeLabelOf_nonempty [simp]: "timeLabelOf v \<noteq> []"
  by (simp add: timeLabelOf_def)

lemma md_out:
  "snd (processHeadingsForTutorial_md h u cat children hs out) =
     out @ map (\<lambda>g. invalidTimeWarning (rawText g) (getAttribute g ''time''))
            (filter (\<lambda>g. \<not> validTime h g) hs)"
  by (induction hs arbitrary: children out) (simp_all add: Let_def validTime_def)

lemma md_labels:
  "map label (fst (processHeadingsForTutorial_md h u cat children hs out)) =
     map label children @
     firstOccurrences (filter (\<lambda>t. t \<notin> set (map label children))
                              (map rawText (filter (validTime h) hs)))"
proof (induction hs arbitrary: children out)
  case Nil
  then show ?case by simp
next
  case (Cons g hs)
  show ?case
  proof (cases "validTime h g \<and> rawText g \<notin> set (map label children)")
    case True
    then have nin: "rawText g \<notin> set (map label children)" and v: "validTime h g" by auto
    let ?n = "(HeadingNode cat (rawText g) (Some u)
                 (Some (timeLabelOf (Number_js (numberOfLiteral h) (getAttribute g ''time'')))))
               \<lparr>contextValue := Some ''HeadingNode''\<rparr>"
    have "map label (fst (processHeadingsForTutorial_md h u cat children (g # hs) out)) =
          map label (fst (processHeadingsForTutorial_md h u cat (children @ [?n]) hs out))"
      using True by (simp add: Let_def validTime_def doesNodeExist_iff addChild_def)
    also have "\<dots> = (map label children @ [rawText g]) @
        firstOccurrences (filter (\<lambda>t. t \<notin> set (map label children @ [rawText g]))
                              (map rawText (filter (validTime h) hs)))"
      using Cons.IH [of "children @ [?n]" out] by simp
    also have "\<dots> = map label children @
        firstOccurrences (filter (\<lambda>t. t \<notin> set (map label children))
                              (map rawText (filter (validTime h) (g # hs))))"
      using firstOccurrences_filter_notin [OF nin, of "map rawText (filter (validTime h) hs)"] v
      by simp
    finally show ?thesis .
  next
    case False
    then have "fst (processHeadingsForTutorial_md h u cat children (g # hs) out) =
          fst (processHeadingsForTutorial_md h u cat children hs
                 (if validTime h g then out
                  else out @ [invalidTimeWarning (rawText g) (getAttribute g ''time'')]))"
      by (auto simp add: Let_def validTime_def doesNodeExist_iff)
    then show ?thesis using False Cons.IH by auto
  qed
qed

lemma md_descriptions:
  "list_all (\<lambda>n. \<exists>d. description n = Some d) children \<Longrightarrow>
   list_all (\<lambda>n. \<exists>d. description n = Some d)
     (fst (processHeadingsForTutorial_md h u cat children hs out))"
proof (induction hs arbitrary: children out)
  case Nil
  then show ?case by simp
next
  case (Cons g hs)
  show ?case
    using Cons.prems by (auto simp: Let_def addChild_def HeadingNode_def intro!: Cons.IH)
qed

lemma md_keeps:
  "n \<in> set children \<Longrightarrow> n \<in> set (fst (processHeadingsForTutorial_md h u cat children hs out))"
proof (induction hs arbitrary: children out)
  case Nil
  then show ?case by simp
next
  case (Cons g hs)
  show ?case
    using Cons.prems by (auto simp: Let_def addChild_def intro!: Cons.IH)
qed

lemma md_append:
  "processHeadingsForTutorial_md h u cat children (xs @ ys) out =
     (case processHeadingsForTutorial_md h u cat children xs out of
        (children', out') \<Rightarrow> processHeadingsForTutorial_md h u cat children' ys out')"
  by (induction xs arbitrary: children out) (simp_all add: Let_def)

lemma Number_5: "Number_js ext (Some ''5'') = IntegerValue 5"
  by code_simp

lemma Number_abc: "Number_js ext (Some ''abc'') = NaN"
  by code_simp

lemma Number_undefined: "Number_js ext None = NaN"
  by (simp add: Number_js_def)

lemma timeLabel_5: "timeLabelOf (IntegerValue 5) = ''(~5 mins)''"
  by code_simp

lemma md_valid:
  assumes v: "validTime h g"
    and fresh: "rawText g \<notin> set (map rawText (filter (validTime h) pre))"
  shows "(HeadingNode cat (rawText g) (Some u)
            (Some (timeLabelOf (Number_js (numberOfLiteral h) (getAttribute g ''time'')))))
           \<lparr>contextValue := Some ''HeadingNode''\<rparr>
           \<in> set (fst (processHeadingsForTutorial_md h u cat [] (pre @ g # post) out))"
proof -
  obtain ch o1 where pre: "processHeadingsForTutorial_md h u cat [] pre out = (ch, o1)"
    by (cases "processHeadingsForTutorial_md h u cat [] pre out")
  have "map label ch = firstOccurrences (map rawText (filter (validTime h) pre))"
    using md_labels [of h u cat "[]" pre out] pre by simp
  with fresh have nin: "rawText g \<notin> set (map label ch)" by simp
  let ?n = "(HeadingNode cat (rawText g) (Some u)
              (Some (timeLabelOf (Number_js (numberOfLiteral h) (getAttribute g ''time'')))))
              \<lparr>contextValue := Some ''HeadingNode''\<rparr>"
  have step: "processHeadingsForTutorial_md h u cat ch (g # post) o1 =
              processHeadingsForTutorial_md h u cat (ch @ [?n]) post o1"
    using nin v by (simp add: Let_def validTime_def doesNodeExist_iff addChild_def)
  have mem: "?n \<in> set (fst (processHeadingsForTutorial_md h u cat (ch @ [?n]) post o1))"
    by (rule md_keeps) simp
  have "processHeadingsForTutorial_md h u cat [] (pre @ g # post) out =
        processHeadingsForTutorial_md h u cat (ch @ [?n]) post o1"
    by (simp only: md_append pre prod.case step)
  with mem show ?thesis by (simp only:)
qed

section \<open>Lemmas on the headings of an AsciiDoc document\<close>

lemma children_skip:
  "list_all (\<lambda>n. \<not> headingLike n) pre \<Longrightarrow>
   getNodeFromADOCDiv_children tutUri cat st tv (pre @ rest) out =
     getNodeFromADOCDiv_children tutUri cat st tv rest out"
proof (induction pre)
  case Nil
  then show ?case by simp
next
  case (Cons n pre)
  then show ?case by (cases n) (simp_all add: headingLike_def)
qed

lemma split_time10: "split_js (CHR '' '') ''time=10 foo'' = [''time=10'', ''foo'']"
  by code_simp

lemma chunk_time10:
  "startsWith ''time=10'' ''time='' \<and> at_index (split_js (CHR ''='') ''time=10'') 1 = Some ''10''"
  by code_simp

lemma Number_10: "Number_js ext (Some ''10'') = IntegerValue 10"
  by code_simp

lemma timeLabel_10: "timeLabelOf (IntegerValue 10) = ''(~10 mins)''"
  by code_simp

lemma startsWith_H2: "startsWith ''H2'' ''H''"
  by code_simp

lemma adoc_distinct:
  "distinct (map label children) \<Longrightarrow>
   distinct (map label (fst (processHeadingsForTutorial_adoc h u cat children hs out)))"
proof (induction hs arbitrary: children out)
  case Nil
  then show ?case by simp
next
  case (Cons g hs)
  obtain r o1 where r: "getNodeFromADOCDiv h g (Some u) cat out = (r, o1)"
    by (cases "getNodeFromADOCDiv h g (Some u) cat out")
  show ?case
  proof (cases r)
    case None
    with r Cons show ?thesis by simp
  next
    case (Some n)
    with r Cons show ?thesis
      by (simp add: doesNodeExist_iff addChild_def)
  qed
qed

lemma md_distinct:
  "distinct (map label (fst (processHeadingsForTutorial_md h u cat [] hs out)))"
  by (simp add: md_labels)

lemma processHeadingsForTutorial_distinct:
  "distinct (map label (fst (processHeadingsForTutorial h tutUri cat out)))"
  by (simp add: processHeadingsForTutorial_def md_distinct adoc_distinct split: option.splits)

section \<open>Claims on the registry\<close>

text \<open>
  Claim C1: for every registry and every pair of a name and a category,
  \<^verbatim>\<open>registerTutorial\<close> fails with a duplicate error if some registration equals the
  pair under case-insensitive comparison, in both directions, and appends otherwise.
  The code lowers the stored side only (lines 94-95).  With the tutorial Foo registered
  under Cat, a second registration of Foo under Cat is present case-insensitively, and
  the call appends it instead of failing.
\<close>

theorem registerTutorial_accepts_duplicate:
  "registered_ci ''Foo'' ''Cat''
     (Some [\<lparr>name = Some ''Foo'', category = Some ''Cat'', sourceUri = Some ''u1''\<rparr>]) \<and>
   registerTutorial ''Foo'' ''u2'' ''Cat''
     (Some [\<lparr>name = Some ''Foo'', category = Some ''Cat'', sourceUri = Some ''u1''\<rparr>]) =
   (Inr (),
    Some [\<lparr>name = Some ''Foo'', category = Some ''Cat'', sourceUri = Some ''u1''\<rparr>,
          \<lparr>name = Some ''Foo'', category = Some ''Cat'', sourceUri = Some ''u2''\<rparr>])"
  by code_simp

text \<open>
  Claim C2, as amended: \<^verbatim>\<open>getDidactCategories\<close> returns, in registration order, the
  category of every registration that has a non-empty category, once per registration,
  so a category registered twice is listed twice.  The distinct categories in
  first-registration order are the labels of the top-level nodes that \<^verbatim>\<open>refresh\<close>
  builds from that list.
\<close>

theorem getDidactCategories_every_registration:
  "getDidactCategories reg = [c \<leftarrow> List.map_filter category (entries reg). c \<noteq> []] \<and>
   map label (treeNodes (refresh reg p)) =
     (if retrieveTutorials p then firstOccurrences (getDidactCategories reg) else [])"
proof
  show "getDidactCategories reg = [c \<leftarrow> List.map_filter category (entries reg). c \<noteq> []]"
    by (cases reg)
      (simp_all add: getDidactCategories_def entries_def getDidactCategories_loop_eq
        List.map_filter_simps)
  show "map label (treeNodes (refresh reg p)) =
     (if retrieveTutorials p then firstOccurrences (getDidactCategories reg) else [])"
    by (rule refresh_labels)
qed

text \<open>
  Claim C2 as stated fails: two tutorials registered under the category Cat make
  \<^verbatim>\<open>getDidactCategories\<close> return that category twice.
\<close>

theorem getDidactCategories_repeats_category:
  "getDidactCategories
     (snd (registerTutorial ''b'' ''u2'' ''Cat'' (snd (registerTutorial ''a'' ''u1'' ''Cat'' None)))) =
   [''Cat'', ''Cat'']"
  by code_simp

text \<open>
  Claim C3: in every registry where the pair of a name and a category is already
  present case-insensitively, the second call of \<^verbatim>\<open>registerTutorial\<close> fails and
  leaves the stored list, and so its length, unchanged.  The code lowers the stored side
  only (lines 94-95).  With the tutorial Foo registered under Cat, the pair Foo and Cat
  is present case-insensitively, yet the second call succeeds and the stored list grows
  from one registration to two.
\<close>

theorem registerTutorial_duplicate_grows_registry:
  "registered_ci ''Foo'' ''Cat''
     (Some [\<lparr>name = Some ''Foo'', category = Some ''Cat'', sourceUri = Some ''u1''\<rparr>]) \<and>
   fst (registerTutorial ''Foo'' ''u2'' ''Cat''
          (Some [\<lparr>name = Some ''Foo'', category = Some ''Cat'', sourceUri = Some ''u1''\<rparr>])) =
     Inr () \<and>
   length (entries
     (Some [\<lparr>name = Some ''Foo'', category = Some ''Cat'', sourceUri = Some ''u1''\<rparr>])) = 1 \<and>
   length (entries (snd (registerTutorial ''Foo'' ''u2'' ''Cat''
     (Some [\<lparr>name = Some ''Foo'', category = Some ''Cat'', sourceUri = Some ''u1''\<rparr>])))) = 2"
  by code_simp

text \<open>
  Claim C4, as amended: for every registry in which the pair of a name and a category is
  not present case-insensitively, and every name, category and source uri that are not
  empty, \<^verbatim>\<open>registerTutorial\<close> succeeds and \<^verbatim>\<open>getUriForDidactNameAndCategory\<close> then
  returns exactly the source uri that was registered; resolving a pair that no
  registration carries returns \<^verbatim>\<open>undefined\<close>.
\<close>

theorem register_then_resolve:
  "(nm \<noteq> [] \<and> cat \<noteq> [] \<and> src \<noteq> [] \<and> \<not> registered_ci nm cat reg \<longrightarrow>
      fst (registerTutorial nm src cat reg) = Inr () \<and>
      getUriForDidactNameAndCategory nm cat (snd (registerTutorial nm src cat reg)) = Some src) \<and>
   (\<not> list_ex (\<lambda>e. name e = Some nm' \<and> category e = Some cat') (entries reg) \<longrightarrow>
      getUriForDidactNameAndCategory nm' cat' reg = None)"
proof -
  have roundtrip: "fst (registerTutorial nm src cat reg) = Inr () \<and>
        getUriForDidactNameAndCategory nm cat (snd (registerTutorial nm src cat reg)) = Some src"
    if a: "nm \<noteq> [] \<and> cat \<noteq> [] \<and> src \<noteq> [] \<and> \<not> registered_ci nm cat reg"
  proof (cases reg)
    case None
    with a show ?thesis
      by (simp add: registerTutorial_def getUriForDidactNameAndCategory_def)
  next
    case (Some es)
    with a have nl: "\<not> registerTutorial_loop nm cat False es"
      using registerTutorial_loop_ci by blast
    from Some a have "getUriForDidactNameAndCategory_loop nm cat es = None"
      using getUri_loop_None not_ci_not_exact by blast
    with nl Some a show ?thesis
      by (simp add: registerTutorial_def getUriForDidactNameAndCategory_def getUri_loop_append)
  qed
  have absent: "getUriForDidactNameAndCategory nm' cat' reg = None"
    if "\<not> list_ex (\<lambda>e. name e = Some nm' \<and> category e = Some cat') (entries reg)"
    using that
    by (cases reg)
      (auto simp: getUriForDidactNameAndCategory_def entries_def list_ex_iff
        intro: getUri_loop_None)
  from roundtrip absent show ?thesis by blast
qed

text \<open>
  With Foo registered under Cat: registering n under c with the uri u, then resolving
  it, gives u; resolving x under y, which was never registered, gives nothing.
\<close>

theorem register_then_resolve_witness:
  "''n'' \<noteq> [] \<and> ''c'' \<noteq> [] \<and> ''u'' \<noteq> [] \<and>
   \<not> registered_ci ''n'' ''c''
       (Some [\<lparr>name = Some ''Foo'', category = Some ''Cat'', sourceUri = Some ''u1''\<rparr>]) \<and>
   \<not> list_ex (\<lambda>e. name e = Some ''x'' \<and> category e = Some ''y'')
       (entries (Some [\<lparr>name = Some ''Foo'', category = Some ''Cat'', sourceUri = Some ''u1''\<rparr>])) \<and>
   fst (registerTutorial ''n'' ''u'' ''c''
          (Some [\<lparr>name = Some ''Foo'', category = Some ''Cat'', sourceUri = Some ''u1''\<rparr>])) = Inr () \<and>
   getUriForDidactNameAndCategory ''n'' ''c''
     (snd (registerTutorial ''n'' ''u'' ''c''
             (Some [\<lparr>name = Some ''Foo'', category = Some ''Cat'', sourceUri = Some ''u1''\<rparr>]))) =
     Some ''u'' \<and>
   getUriForDidactNameAndCategory ''x'' ''y''
     (Some [\<lparr>name = Some ''Foo'', category = Some ''Cat'', sourceUri = Some ''u1''\<rparr>]) = None"
proof -
  have absent: "\<not> registered_ci ''n'' ''c''
       (Some [\<lparr>name = Some ''Foo'', category = Some ''Cat'', sourceUri = Some ''u1''\<rparr>])"
    by code_simp
  have never: "\<not> list_ex (\<lambda>e. name e = Some ''x'' \<and> category e = Some ''y'')
       (entries (Some [\<lparr>name = Some ''Foo'', category = Some ''Cat'', sourceUri = Some ''u1''\<rparr>]))"
    by code_simp
  have nonempty: "''n'' \<noteq> [] \<and> ''c'' \<noteq> [] \<and> ''u'' \<noteq> []"
    by simp
  from register_then_resolve [of "''n''" "''c''" "''u''"
      "Some [\<lparr>name = Some ''Foo'', category = Some ''Cat'', sourceUri = Some ''u1''\<rparr>]"
      "''x''" "''y''"]
    absent never nonempty
  show ?thesis by blast
qed

text \<open>
  Claim C4 as stated fails for the empty source uri: the registration succeeds, and the
  lookup skips the stored entry (line 156) and returns \<^verbatim>\<open>undefined\<close>, not the empty
  string that was registered.
\<close>

theorem register_then_resolve_empty_uri:
  "\<not> registered_ci ''n'' ''c'' None \<and>
   fst (registerTutorial ''n'' [] ''c'' None) = Inr () \<and>
   getUriForDidactNameAndCategory ''n'' ''c'' (snd (registerTutorial ''n'' [] ''c'' None)) = None"
  by code_simp




section \<open>Claims on the headings of a tutorial\<close>

text \<open>
  Claim C6, as amended: for a Markdown document, the texts sent to the output channel are
  exactly one warning for each heading whose \<^verbatim>\<open>time\<close> attribute is missing or
  converts to \<^verbatim>\<open>NaN\<close> (such as abc), in document order, and no warning for any
  other heading.  Such a heading is left out of the returned list: the returned nodes
  are those of the headings with a valid time, one per title, and each carries a
  description.  The node of a heading with a valid time, described by that time, is
  returned unless an earlier heading with a valid time has the same title; the time 5
  is valid and is described as \<^verbatim>\<open>(~5 mins)\<close>.
\<close>

theorem processHeadingsForTutorial_markdown:
  assumes "u \<noteq> []"
    and "getTimeElementsForDidactFileUri h u = Some hs"
    and "\<not> isAsciiDoc h u"
  shows
    "snd (processHeadingsForTutorial h (Some u) cat out) =
       out @ map (\<lambda>g. invalidTimeWarning (rawText g) (getAttribute g ''time''))
              (filter (\<lambda>g. \<not> validTime h g) hs) \<and>
     map label (fst (processHeadingsForTutorial h (Some u) cat out)) =
       firstOccurrences (map rawText (filter (validTime h) hs)) \<and>
     list_all (\<lambda>n. description n \<noteq> None) (fst (processHeadingsForTutorial h (Some u) cat out)) \<and>
     (getAttribute g ''time'' = None \<or> getAttribute g ''time'' = Some ''abc'' \<longrightarrow>
        \<not> validTime h g) \<and>
     (validTime h g' \<and> hs = pre @ g' # post \<and>
      rawText g' \<notin> set (map rawText (filter (validTime h) pre)) \<longrightarrow>
        (HeadingNode cat (rawText g') (Some u)
           (Some (timeLabelOf (Number_js (numberOfLiteral h) (getAttribute g' ''time'')))))
          \<lparr>contextValue := Some ''HeadingNode''\<rparr>
          \<in> set (fst (processHeadingsForTutorial h (Some u) cat out))) \<and>
     (getAttribute g' ''time'' = Some ''5'' \<longrightarrow>
        validTime h g' \<and>
        timeLabelOf (Number_js (numberOfLiteral h) (getAttribute g' ''time'')) = ''(~5 mins)'')"
proof -
  have run: "processHeadingsForTutorial h (Some u) cat out =
             processHeadingsForTutorial_md h u cat [] hs out"
    using assms by (simp add: processHeadingsForTutorial_def)
  have warnings: "snd (processHeadingsForTutorial_md h u cat [] hs out) =
       out @ map (\<lambda>g. invalidTimeWarning (rawText g) (getAttribute g ''time''))
              (filter (\<lambda>g. \<not> validTime h g) hs)"
    by (rule md_out)
  have labels: "map label (fst (processHeadingsForTutorial_md h u cat [] hs out)) =
       firstOccurrences (map rawText (filter (validTime h) hs))"
    by (simp add: md_labels)
  have "list_all (\<lambda>n. \<exists>d. description n = Some d)
          (fst (processHeadingsForTutorial_md h u cat [] hs out))"
    by (rule md_descriptions) simp
  then have described: "list_all (\<lambda>n. description n \<noteq> None)
          (fst (processHeadingsForTutorial_md h u cat [] hs out))"
    by (simp add: list_all_iff)
  have invalid: "\<not> validTime h g"
    if "getAttribute g ''time'' = None \<or> getAttribute g ''time'' = Some ''abc''"
    using that by (auto simp: validTime_def isNaN_def Number_abc Number_undefined)
  have valid: "(HeadingNode cat (rawText g') (Some u)
           (Some (timeLabelOf (Number_js (numberOfLiteral h) (getAttribute g' ''time'')))))
          \<lparr>contextValue := Some ''HeadingNode''\<rparr>
          \<in> set (fst (processHeadingsForTutorial_md h u cat [] hs out))"
    if "validTime h g' \<and> hs = pre @ g' # post \<and>
        rawText g' \<notin> set (map rawText (filter (validTime h) pre))"
    using that md_valid [of h g' pre cat u post out] by simp
  have five: "validTime h g' \<and>
        timeLabelOf (Number_js (numberOfLiteral h) (getAttribute g' ''time'')) = ''(~5 mins)''"
    if "getAttribute g' ''time'' = Some ''5''"
    using that by (simp add: validTime_def isNaN_def Number_5 timeLabel_5)
  from warnings labels described invalid valid five show ?thesis
    unfolding run by blast
qed

text \<open>
  A Markdown document with the headings Intro (time abc), Step (time 5) and Outro (no
  time): one node, for Step, and one warning each for Intro and Outro.
\<close>

theorem processHeadingsForTutorial_markdown_witness:
  "''t.didact.md'' \<noteq> [] \<and>
   getTimeElementsForDidactFileUri
     (exampleHost [HTMLElement ''H2'' [(''time'', ''abc'')] [] ''Intro'' ''Intro'',
                   HTMLElement ''H2'' [(''time'', ''5'')] [] ''Step'' ''Step'',
                   HTMLElement ''H2'' [] [] ''Outro'' ''Outro''] False) ''t.didact.md'' =
     Some [HTMLElement ''H2'' [(''time'', ''abc'')] [] ''Intro'' ''Intro'',
           HTMLElement ''H2'' [(''time'', ''5'')] [] ''Step'' ''Step'',
           HTMLElement ''H2'' [] [] ''Outro'' ''Outro''] \<and>
   \<not> isAsciiDoc
     (exampleHost [HTMLElement ''H2'' [(''time'', ''abc'')] [] ''Intro'' ''Intro'',
                   HTMLElement ''H2'' [(''time'', ''5'')] [] ''Step'' ''Step'',
                   HTMLElement ''H2'' [] [] ''Outro'' ''Outro''] False) ''t.didact.md'' \<and>
   processHeadingsForTutorial
     (exampleHost [HTMLElement ''H2'' [(''time'', ''abc'')] [] ''Intro'' ''Intro'',
                   HTMLElement ''H2'' [(''time'', ''5'')] [] ''Step'' ''Step'',
                   HTMLElement ''H2'' [] [] ''Outro'' ''Outro''] False)
     (Some ''t.didact.md'') (Some ''Cat'') [] =
   ([(HeadingNode (Some ''Cat'') ''Step'' (Some ''t.didact.md'') (Some ''(~5 mins)''))
       \<lparr>contextValue := Some ''HeadingNode''\<rparr>],
    [invalidTimeWarning ''Intro'' (Some ''abc''), invalidTimeWarning ''Outro'' None]) \<and>
   map label (fst (processHeadingsForTutorial
     (exampleHost [HTMLElement ''H2'' [(''time'', ''abc'')] [] ''Intro'' ''Intro'',
                   HTMLElement ''H2'' [(''time'', ''5'')] [] ''Step'' ''Step'',
                   HTMLElement ''H2'' [] [] ''Outro'' ''Outro''] False)
     (Some ''t.didact.md'') (Some ''Cat'') [])) =
   firstOccurrences (map rawText (filter
     (validTime (exampleHost [HTMLElement ''H2'' [(''time'', ''abc'')] [] ''Intro'' ''Intro'',
                   HTMLElement ''H2'' [(''time'', ''5'')] [] ''Step'' ''Step'',
                   HTMLElement ''H2'' [] [] ''Outro'' ''Outro''] False))
     [HTMLElement ''H2'' [(''time'', ''abc'')] [] ''Intro'' ''Intro'',
      HTMLElement ''H2'' [(''time'', ''5'')] [] ''Step'' ''Step'',
      HTMLElement ''H2'' [] [] ''Outro'' ''Outro'']))"
proof -
  let ?hs = "[HTMLElement ''H2'' [(''time'', ''abc'')] [] ''Intro'' ''Intro'',
              HTMLElement ''H2'' [(''time'', ''5'')] [] ''Step'' ''Step'',
              HTMLElement ''H2'' [] [] ''Outro'' ''Outro'']"
  have a: "''t.didact.md'' \<noteq> []"
    by simp
  have b: "getTimeElementsForDidactFileUri (exampleHost ?hs False) ''t.didact.md'' = Some ?hs"
    by (simp add: exampleHost_def)
  have c: "\<not> isAsciiDoc (exampleHost ?hs False) ''t.didact.md''"
    by (simp add: exampleHost_def)
  have d: "processHeadingsForTutorial (exampleHost ?hs False)
             (Some ''t.didact.md'') (Some ''Cat'') [] =
           ([(HeadingNode (Some ''Cat'') ''Step'' (Some ''t.didact.md'') (Some ''(~5 mins)''))
               \<lparr>contextValue := Some ''HeadingNode''\<rparr>],
            [invalidTimeWarning ''Intro'' (Some ''abc''), invalidTimeWarning ''Outro'' None])"
    by code_simp
  note e = processHeadingsForTutorial_markdown [OF a b c, of "Some ''Cat''" "[]"]
  from a b c d e show ?thesis
    by blast
qed

text \<open>
  Claim C6 as stated fails: a Markdown heading with the time abc yields no heading at
  all, with or without a time estimate; only the warning is produced.
\<close>

theorem markdown_invalid_time_yields_no_heading:
  "processHeadingsForTutorial
     (exampleHost [HTMLElement ''H2'' [(''time'', ''abc'')] [] ''Intro'' ''Intro''] False)
     (Some ''t.didact.md'') (Some ''Cat'') [] =
   ([], [invalidTimeWarning ''Intro'' (Some ''abc'')])"
  by code_simp

text \<open>
  Claim C7, as amended: for every div element whose class attribute is
  \<^verbatim>\<open>time=10 foo\<close> and which has a child H2 element with the visible text Step One,
  no child before it being an element whose tag begins with H,
  \<^verbatim>\<open>getNodeFromADOCDiv\<close> returns a heading node whose label is Step One and whose
  description is \<^verbatim>\<open>(~10 mins)\<close>, and sends nothing to the output channel.
\<close>

theorem getNodeFromADOCDiv_time10:
  assumes cls: "getAttribute divElement ''class'' = Some ''time=10 foo''"
    and kids: "childNodes divElement = pre @ ElementNode child # post"
    and before: "list_all (\<lambda>n. \<not> headingLike n) pre"
    and tag: "tagName child = ''H2''"
    and inner: "innerText child = ''Step One''"
  shows "getNodeFromADOCDiv h divElement tutUri cat out =
           (Some (HeadingNode cat ''Step One'' tutUri (Some ''(~10 mins)'')), out)"
proof -
  have "getNodeFromADOCDiv_children tutUri cat (Some ''10'') (IntegerValue 10)
          (childNodes divElement) out =
        (Some (HeadingNode cat ''Step One'' tutUri (Some ''(~10 mins)'')), out)"
    unfolding kids children_skip [OF before]
    by (simp add: tag inner startsWith_H2 isNaN_def timeLabel_10)
  then show ?thesis
    by (simp add: getNodeFromADOCDiv_def cls split_time10 chunk_time10 at_index_def
        Number_10 kids)
qed

text \<open>A div with a text node and a paragraph before the H2, and an H3 after it.\<close>

theorem getNodeFromADOCDiv_time10_witness:
  "getAttribute
     (HTMLElement ''DIV'' [(''class'', ''time=10 foo'')]
        ([OtherNode, ElementNode (HTMLElement ''P'' [] [] ''intro'' ''intro'')] @
         ElementNode (HTMLElement ''H2'' [] [] ''Step One'' ''Step One'') #
         [ElementNode (HTMLElement ''H3'' [] [] ''Later'' ''Later'')]) [] []) ''class'' =
     Some ''time=10 foo'' \<and>
   list_all (\<lambda>n. \<not> headingLike n)
     [OtherNode, ElementNode (HTMLElement ''P'' [] [] ''intro'' ''intro'')] \<and>
   tagName (HTMLElement ''H2'' [] [] ''Step One'' ''Step One'') = ''H2'' \<and>
   innerText (HTMLElement ''H2'' [] [] ''Step One'' ''Step One'') = ''Step One'' \<and>
   getNodeFromADOCDiv (exampleHost [] True)
     (HTMLElement ''DIV'' [(''class'', ''time=10 foo'')]
        ([OtherNode, ElementNode (HTMLElement ''P'' [] [] ''intro'' ''intro'')] @
         ElementNode (HTMLElement ''H2'' [] [] ''Step One'' ''Step One'') #
         [ElementNode (HTMLElement ''H3'' [] [] ''Later'' ''Later'')]) [] [])
     (Some ''t.didact.adoc'') (Some ''Cat'') [] =
   (Some (HeadingNode (Some ''Cat'') ''Step One'' (Some ''t.didact.adoc'') (Some ''(~10 mins)'')), [])"
proof -
  let ?pre = "[OtherNode, ElementNode (HTMLElement ''P'' [] [] ''intro'' ''intro'')]"
  let ?h2 = "HTMLElement ''H2'' [] [] ''Step One'' ''Step One''"
  let ?post = "[ElementNode (HTMLElement ''H3'' [] [] ''Later'' ''Later'')]"
  let ?div = "HTMLElement ''DIV'' [(''class'', ''time=10 foo'')]
                (?pre @ ElementNode ?h2 # ?post) [] []"
  have a: "getAttribute ?div ''class'' = Some ''time=10 foo''"
    by (simp add: getAttribute_def)
  have b: "childNodes ?div = ?pre @ ElementNode ?h2 # ?post"
    by simp
  have c: "list_all (\<lambda>n. \<not> headingLike n) ?pre"
    by code_simp
  have d: "tagName ?h2 = ''H2''" and e: "innerText ?h2 = ''Step One''"
    by simp_all
  note f = getNodeFromADOCDiv_time10 [OF a b c d e, of "exampleHost [] True"
      "Some ''t.didact.adoc''" "Some ''Cat''" "[]"]
  from a c d e f show ?thesis
    by blast
qed

text \<open>
  Claim C7 as stated fails when another heading stands before the H2: the first child
  whose tag passes the test supplies the title.
\<close>

theorem getNodeFromADOCDiv_earlier_heading:
  "getNodeFromADOCDiv (exampleHost [] True)
     (HTMLElement ''DIV'' [(''class'', ''time=10 foo'')]
        [ElementNode (HTMLElement ''H1'' [] [] ''Intro'' ''Intro''),
         ElementNode (HTMLElement ''H2'' [] [] ''Step One'' ''Step One'')] [] [])
     (Some ''t.didact.adoc'') (Some ''Cat'') [] =
   (Some (HeadingNode (Some ''Cat'') ''Intro'' (Some ''t.didact.adoc'') (Some ''(~10 mins)'')), [])"
  by code_simp

text \<open>
  Claim C8: the title of the node is the visible text of the first child element whose
  tag is one of H1 to H6, and a child with another tag, such as HR, never supplies it.
  The code tests only that the tag starts with H (line 177).  For a div with the class
  \<^verbatim>\<open>sect1 time=10\<close> whose children are an HR element and an H2 element titled Step
  One, the HR supplies the title: the node returned has the empty label.
\<close>

theorem getNodeFromADOCDiv_title_from_HR:
  "getNodeFromADOCDiv (exampleHost [] True)
     (HTMLElement ''DIV'' [(''class'', ''sect1 time=10'')]
        [ElementNode (HTMLElement ''HR'' [] [] [] []),
         ElementNode (HTMLElement ''H2'' [] [] ''Step One'' ''Step One'')] [] [])
     (Some ''t.didact.adoc'') (Some ''Cat'') [] =
   (Some (HeadingNode (Some ''Cat'') [] (Some ''t.didact.adoc'') (Some ''(~10 mins)'')), [])"
  by code_simp

section \<open>Claims on the tree\<close>

text \<open>
  Claim C9: membership in a sibling list is tested by label alone, whatever the other
  properties of the nodes are, and each of the three operations that insert nodes tests
  it before inserting.  So the labels of the top-level nodes are distinct after
  \<^verbatim>\<open>refresh\<close>, stay distinct under \<^verbatim>\<open>processRegisteredTutorials\<close>, and the labels
  of the lists that \<^verbatim>\<open>processTutorialsForCategory\<close> and
  \<^verbatim>\<open>processHeadingsForTutorial\<close> return are distinct.
\<close>

theorem sibling_labels_distinct:
  "doesNodeExist nodes n = (label n \<in> set (map label nodes)) \<and>
   distinct (map label (treeNodes (refresh reg p))) \<and>
   (distinct (map label (treeNodes p)) \<longrightarrow>
      distinct (map label (treeNodes (processRegisteredTutorials reg p)))) \<and>
   distinct (map label (processTutorialsForCategory h reg cat)) \<and>
   distinct (map label (fst (processHeadingsForTutorial h tutUri cat' out)))"
proof -
  have "distinct (map label (treeNodes (refresh reg p)))"
    by (simp add: refresh_labels)
  then show ?thesis
    using doesNodeExist_iff [of nodes n] processRegisteredTutorials_distinct [of p reg]
      processTutorialsForCategory_distinct [of h reg cat]
      processHeadingsForTutorial_distinct [of h tutUri cat' out]
    by blast
qed

text \<open>
  A provider that shows the category A, and a registry with the tutorial T under A, a
  tutorial under B, and T under A again: the top-level labels become A and B, and the
  category A lists T once.
\<close>

theorem sibling_labels_distinct_witness:
  "distinct (map label (treeNodes
     \<lparr>treeNodes = [TreeNode (Some ''A'') ''A'' None Collapsed], retrieveTutorials = True\<rparr>)) \<and>
   distinct (map label (treeNodes (processRegisteredTutorials
     (Some [\<lparr>name = Some ''T'', category = Some ''A'', sourceUri = Some ''u1''\<rparr>,
            \<lparr>name = Some ''s'', category = Some ''B'', sourceUri = Some ''u2''\<rparr>,
            \<lparr>name = Some ''T'', category = Some ''A'', sourceUri = Some ''u3''\<rparr>])
     \<lparr>treeNodes = [TreeNode (Some ''A'') ''A'' None Collapsed], retrieveTutorials = True\<rparr>))) \<and>
   map label (treeNodes (processRegisteredTutorials
     (Some [\<lparr>name = Some ''T'', category = Some ''A'', sourceUri = Some ''u1''\<rparr>,
            \<lparr>name = Some ''s'', category = Some ''B'', sourceUri = Some ''u2''\<rparr>,
            \<lparr>name = Some ''T'', category = Some ''A'', sourceUri = Some ''u3''\<rparr>])
     \<lparr>treeNodes = [TreeNode (Some ''A'') ''A'' None Collapsed], retrieveTutorials = True\<rparr>)) =
     [''A'', ''B''] \<and>
   map label (processTutorialsForCategory (exampleHost [] False)
     (Some [\<lparr>name = Some ''T'', category = Some ''A'', sourceUri = Some ''u1''\<rparr>,
            \<lparr>name = Some ''s'', category = Some ''B'', sourceUri = Some ''u2''\<rparr>,
            \<lparr>name = Some ''T'', category = Some ''A'', sourceUri = Some ''u3''\<rparr>])
     (Some ''A'')) = [''T'']"
proof -
  let ?p = "\<lparr>treeNodes = [TreeNode (Some ''A'') ''A'' None Collapsed], retrieveTutorials = True\<rparr>"
  let ?reg = "Some [\<lparr>name = Some ''T'', category = Some ''A'', sourceUri = Some ''u1''\<rparr>,
            \<lparr>name = Some ''s'', category = Some ''B'', sourceUri = Some ''u2''\<rparr>,
            \<lparr>name = Some ''T'', category = Some ''A'', sourceUri = Some ''u3''\<rparr>]"
  have a: "distinct (map label (treeNodes ?p))"
    by simp
  have b: "map label (treeNodes (processRegisteredTutorials ?reg ?p)) = [''A'', ''B'']"
    by code_simp
  have c: "map label (processTutorialsForCategory (exampleHost [] False) ?reg (Some ''A'')) = [''T'']"
    by code_simp
  from sibling_labels_distinct [of _ _ ?reg ?p] a
  have "distinct (map label (treeNodes (processRegisteredTutorials ?reg ?p)))"
    by blast
  with a b c show ?thesis
    by blast
qed

text \<open>
  Claim C10: \<^verbatim>\<open>findCategoryNode\<close> returns a node exactly when some top-level node
  has the given label, and the node it returns is a new tree node with that label and
  category, no uri and the collapsed state, whatever the stored node is.
\<close>

theorem findCategoryNode_fresh_node:
  "findCategoryNode c p =
     (if list_ex (\<lambda>n. label n = c) (treeNodes p)
      then Some \<lparr>nodeClass = TreeNodeClass, label = c, nodeCategory = Some c, uri = None,
                 collapsibleState = Collapsed, description = None, contextValue = None\<rparr>
      else None)"
proof -
  have "doesNodeExist (treeNodes p) (TreeNode (Some c) c None Collapsed) =
        list_ex (\<lambda>n. label n = c) (treeNodes p)"
    by (auto simp: doesNodeExist_iff list_ex_iff)
  then show ?thesis
    by (simp add: findCategoryNode_def Let_def TreeNode_def)
qed

text \<open>
  A stored top-level node labelled Cat that is a tutorial node with a uri and a
  description: the node found has neither, and no node is found for the label cat.
\<close>

theorem findCategoryNode_fresh_node_witness:
  "findCategoryNode ''Cat''
     \<lparr>treeNodes = [TutorialNode (Some ''Other'') ''Cat'' (Some ''u'') Expanded (Some ''(~5 mins)'')],
      retrieveTutorials = True\<rparr> =
     Some \<lparr>nodeClass = TreeNodeClass, label = ''Cat'', nodeCategory = Some ''Cat'', uri = None,
           collapsibleState = Collapsed, description = None, contextValue = None\<rparr> \<and>
   findCategoryNode ''cat''
     \<lparr>treeNodes = [TutorialNode (Some ''Other'') ''Cat'' (Some ''u'') Expanded (Some ''(~5 mins)'')],
      retrieveTutorials = True\<rparr> = None"
proof -
  let ?p = "\<lparr>treeNodes = [TutorialNode (Some ''Other'') ''Cat'' (Some ''u'') Expanded (Some ''(~5 mins)'')],
             retrieveTutorials = True\<rparr>"
  have a: "list_ex (\<lambda>n. label n = ''Cat'') (treeNodes ?p)"
    by simp
  have b: "\<not> list_ex (\<lambda>n. label n = ''cat'') (treeNodes ?p)"
    by simp
  from findCategoryNode_fresh_node [of "''Cat''" ?p] findCategoryNode_fresh_node [of "''cat''" ?p] a b
  show ?thesis
    by simp
qed

end
